theory Spec2Isabelle
  imports Main "HOL-Library.Word" "HOL-Library.Sublist"
begin

section \<open>Data model (app/models.py)\<close>

text \<open>
  The four string enums of \<^verbatim>\<open>models.py\<close>. The members are listed in the order of the
  class bodies, which is the order in which Python iterates an enum.
\<close>

datatype ComplaintStatus = PENDING | UNDER_REVIEW | RESOLVED | DISMISSED

datatype ComplaintCategory =
  EXCESSIVE_FORCE | MISCONDUCT | DISCRIMINATION | CORRUPTION | HARASSMENT | ABUSE_OF_POWER | OTHER

datatype ComplaintUrgency = LOW | MEDIUM | HIGH | CRITICAL

datatype MediaType = IMAGE | VIDEO | AUDIO | DOCUMENT

text \<open>\<^verbatim>\<open>category.value\<close>: the string each member of \<^verbatim>\<open>ComplaintCategory\<close> carries.\<close>

fun category_value :: "ComplaintCategory \<Rightarrow> string" where
  "category_value EXCESSIVE_FORCE = ''excessive_force''"
| "category_value MISCONDUCT = ''misconduct''"
| "category_value DISCRIMINATION = ''discrimination''"
| "category_value CORRUPTION = ''corruption''"
| "category_value HARASSMENT = ''harassment''"
| "category_value ABUSE_OF_POWER = ''abuse_of_power''"
| "category_value OTHER = ''other''"

text \<open>\<^verbatim>\<open>for category in ComplaintCategory\<close> visits the members in definition order.\<close>

definition ComplaintCategory_members :: "ComplaintCategory list" where
  "ComplaintCategory_members =
     [EXCESSIVE_FORCE, MISCONDUCT, DISCRIMINATION, CORRUPTION, HARASSMENT, ABUSE_OF_POWER, OTHER]"

text \<open>
  A \<^verbatim>\<open>datetime\<close> is a point on the time line, counted in microseconds; \<^verbatim>\<open>bytes\<close> is a
  list of octets; a UUID is a 128-bit number.
\<close>

type_synonym datetime = int
type_synonym bytes = "8 word list"
type_synonym uuid = "128 word"

text \<open>
  The table rows and the request/response schemas. Field names are those of the source;
  where two classes share a field name the selector is written with the class name in
  front (\<open>Complaint.title\<close>, \<open>ComplaintPublic.title\<close>).
\<close>

record Complaint =
  id :: "int option"
  tracking_id :: string
  title :: string
  description :: string
  category :: ComplaintCategory
  urgency :: ComplaintUrgency
  incident_date :: "datetime option"
  incident_location :: "string option"
  officer_badge_number :: "string option"
  officer_name :: "string option"
  contact_email :: "string option"
  contact_phone :: "string option"
  status :: ComplaintStatus
  created_at :: datetime
  updated_at :: datetime
  submitted_ip :: "string option"
  additional_metadata :: "(string \<times> string) list"

record MediaAttachment =
  id :: "int option"
  filename :: string
  original_filename :: string
  file_path :: string
  file_size :: nat
  mime_type :: string
  media_type :: MediaType
  file_hash :: string
  uploaded_at :: datetime
  is_processed :: bool
  complaint_id :: int

record ComplaintCreate =
  title :: string
  description :: string
  category :: ComplaintCategory
  urgency :: ComplaintUrgency
  incident_date :: "datetime option"
  incident_location :: "string option"
  officer_badge_number :: "string option"
  officer_name :: "string option"
  contact_email :: "string option"
  contact_phone :: "string option"

record ComplaintPublic =
  tracking_id :: string
  title :: string
  category :: ComplaintCategory
  status :: ComplaintStatus
  created_at :: datetime
  updated_at :: datetime

section \<open>Strings\<close>

text \<open>
  \<^verbatim>\<open>str.upper()\<close> and SQL \<^verbatim>\<open>upper()\<close> on the ASCII letters, by table; every other
  character is kept. Tracking codes and MIME types are ASCII.
\<close>

definition upper_char :: "char \<Rightarrow> char" where
  "upper_char c =
     (case map_of (zip ''abcdefghijklmnopqrstuvwxyz'' ''ABCDEFGHIJKLMNOPQRSTUVWXYZ'') c of
        Some u \<Rightarrow> u
      | None \<Rightarrow> c)"

definition upper :: "string \<Rightarrow> string" where
  "upper s = map upper_char s"

text \<open>\<^verbatim>\<open>s.startswith(p)\<close>.\<close>

definition startswith :: "string \<Rightarrow> string \<Rightarrow> bool" where
  "startswith s p = (take (length p) s = p)"

text \<open>\<^verbatim>\<open>str(n)\<close> for an integer: decimal digits, with a minus sign below zero.\<close>

fun str_nat :: "nat \<Rightarrow> string" where
  "str_nat n =
     (if n < 10 then [''0123456789'' ! n]
      else str_nat (n div 10) @ [''0123456789'' ! (n mod 10)])"

definition str_int :: "int \<Rightarrow> string" where
  "str_int i = (if i < 0 then ''-'' @ str_nat (nat (- i)) else str_nat (nat i))"

text \<open>
  \<^verbatim>\<open>UUID.hex\<close>: the 128-bit value as 32 lower-case hexadecimal digits, most
  significant digit first (\<^verbatim>\<open>'%032x' % self.int\<close>).
\<close>

definition hex_digit :: "nat \<Rightarrow> char" where
  "hex_digit k = ''0123456789abcdef'' ! k"

definition uuid_hex :: "uuid \<Rightarrow> string" where
  "uuid_hex u = map (\<lambda>i. hex_digit (unat u div 16 ^ i mod 16)) (rev [0..<32])"

text \<open>\<^verbatim>\<open>Path.name\<close>: the last component of a path that does not end in a separator.\<close>

definition path_name :: "string \<Rightarrow> string" where
  "path_name p = rev (takeWhile (\<lambda>c. c \<noteq> CHR ''/'') (rev p))"

text \<open>
  SQL \<^verbatim>\<open>LIKE\<close> without an \<^verbatim>\<open>ESCAPE\<close> clause: in the pattern \<^verbatim>\<open>%\<close> stands for any run of
  characters (also the empty one), \<^verbatim>\<open>_\<close> for exactly one character, every other
  character for itself. The first argument is the pattern, the second the text.
\<close>

fun sql_like :: "string \<Rightarrow> string \<Rightarrow> bool" where
  "sql_like [] [] = True"
| "sql_like [] (c # cs) = False"
| "sql_like (p # ps) [] = (p = CHR ''%'' \<and> sql_like ps [])"
| "sql_like (p # ps) (c # cs) =
     (if p = CHR ''%'' then sql_like ps (c # cs) \<or> sql_like (p # ps) cs
      else if p = CHR ''_'' then sql_like ps cs
      else p = c \<and> sql_like ps cs)"

text \<open>Python's \<^verbatim>\<open>q in s\<close> on strings: \<open>q\<close> occurs in \<open>s\<close> as a contiguous run.\<close>

fun contains :: "string \<Rightarrow> string \<Rightarrow> bool" where
  "contains [] q = (q = [])"
| "contains (c # cs) q = (startswith (c # cs) q \<or> contains cs q)"

section \<open>The world the service runs in\<close>

text \<open>
  The service reads and writes a relational store, a file system, a source of random
  UUIDs and the clock. The state of all four is one record that every operation takes
  and returns.
  \<^item> \<open>complaints\<close> and \<open>media_attachments\<close> are the two tables, rows in insertion order.
  \<^item> \<open>files\<close> maps a path to the content of the file there; \<open>dirs\<close> are the
    directories made by \<^verbatim>\<open>mkdir\<close>.
  \<^item> \<open>rand k\<close> is the value the \<open>k\<close>-th call of \<^verbatim>\<open>uuid.uuid4()\<close> returns and
    \<open>rand_pos\<close> counts the calls made so far. Any 128-bit value may come; that
    \<^verbatim>\<open>uuid4\<close> fixes the version and variant bits is not used.
  \<^item> \<open>clock k\<close> is what the \<open>k\<close>-th call of \<^verbatim>\<open>datetime.utcnow()\<close> returns and
    \<open>ticks\<close> counts the calls made so far.
\<close>

record world =
  complaints :: "Complaint list"
  media_attachments :: "MediaAttachment list"
  files :: "string \<rightharpoonup> bytes"
  dirs :: "string set"
  rand :: "nat \<Rightarrow> uuid"
  rand_pos :: nat
  clock :: "nat \<Rightarrow> datetime"
  ticks :: nat

text \<open>
  Exceptions are values. The service raises none of its own: what it propagates comes
  from the store or from the file system.
\<close>

datatype error = SQLAlchemyError string | OSError string

text \<open>
  What the environment does during one call: each field names the exception that the
  corresponding kind of access raises, or \<open>None\<close> when it succeeds.
  \<^item> \<open>db_read_error\<close>: the queries \<^verbatim>\<open>session.get\<close> and \<^verbatim>\<open>session.exec(select ...)\<close>;
  \<^item> \<open>db_write_error\<close>: \<^verbatim>\<open>session.add\<close> / \<^verbatim>\<open>commit\<close> / \<^verbatim>\<open>refresh\<close>;
  \<^item> \<open>file_write_error\<close>: \<^verbatim>\<open>open(file_path, "wb")\<close> in \<^verbatim>\<open>_save_file\<close>;
  \<^item> \<open>file_unlink_error\<close>: \<^verbatim>\<open>file_path.unlink()\<close>.
\<close>

record faults =
  db_read_error :: "error option"
  db_write_error :: "error option"
  file_write_error :: "error option"
  file_unlink_error :: "error option"

definition no_faults :: faults where
  "no_faults = \<lparr>db_read_error = None, db_write_error = None,
                 file_write_error = None, file_unlink_error = None\<rparr>"

definition uuid4 :: "world \<Rightarrow> uuid \<times> world" where
  "uuid4 w = (rand w (rand_pos w), w\<lparr>rand_pos := Suc (rand_pos w)\<rparr>)"

definition utcnow :: "world \<Rightarrow> datetime \<times> world" where
  "utcnow w = (clock w (ticks w), w\<lparr>ticks := Suc (ticks w)\<rparr>)"

text \<open>
  The primary key the store gives a new row: one more than the largest key in the
  table, 1 in an empty table.
\<close>

definition next_id :: "int option list \<Rightarrow> int" where
  "next_id ids = fold (\<lambda>i m. case i of None \<Rightarrow> m | Some k \<Rightarrow> max k m) ids 0 + 1"

text \<open>\<^verbatim>\<open>session.get(Complaint, complaint_id)\<close>: the row with that primary key.\<close>

definition session_get_Complaint :: "world \<Rightarrow> int \<Rightarrow> Complaint option" where
  "session_get_Complaint w k = find (\<lambda>c. Complaint.id c = Some k) (complaints w)"

text \<open>
  \<^verbatim>\<open>session.exec(select(Complaint).where(Complaint.tracking_id == t)).first()\<close>.
\<close>

definition select_by_tracking_id :: "world \<Rightarrow> string \<Rightarrow> Complaint option" where
  "select_by_tracking_id w t = find (\<lambda>c. Complaint.tracking_id c = t) (complaints w)"

section \<open>ComplaintService (app/complaint_service.py)\<close>

definition UPLOAD_DIR :: string where
  "UPLOAD_DIR = ''uploads''"

definition MAX_FILE_SIZE :: nat where
  "MAX_FILE_SIZE = 50 * 1024 * 1024"

definition ALLOWED_MIME_TYPES :: "string list" where
  "ALLOWED_MIME_TYPES =
     [''image/jpeg'', ''image/png'', ''image/gif'', ''image/webp'',
      ''video/mp4'', ''video/webm'', ''video/quicktime'',
      ''audio/mpeg'', ''audio/wav'', ''audio/ogg'',
      ''application/pdf'', ''text/plain'']"

text \<open>
  \<^verbatim>\<open>_generate_tracking_id\<close>: \<^verbatim>\<open>f"PC-{uuid.uuid4().hex[:8].upper()}"\<close>. The first
  definition is the formatting of one UUID, the second draws the UUID.
\<close>

definition format_tracking_id :: "uuid \<Rightarrow> string" where
  "format_tracking_id u = ''PC-'' @ upper (take 8 (uuid_hex u))"

definition generate_tracking_id :: "world \<Rightarrow> string \<times> world" where
  "generate_tracking_id w = (case uuid4 w of (u, w') \<Rightarrow> (format_tracking_id u, w'))"

text \<open>
  The code that the \<open>k\<close>-th next call of \<open>generate_tracking_id\<close> returns in world
  \<open>w\<close>.
\<close>

definition candidate :: "world \<Rightarrow> nat \<Rightarrow> string" where
  "candidate w k = format_tracking_id (rand w (rand_pos w + k))"

text \<open>\<^verbatim>\<open>_determine_media_type\<close>.\<close>

definition determine_media_type :: "string \<Rightarrow> MediaType" where
  "determine_media_type m =
     (if startswith m ''image/'' then IMAGE
      else if startswith m ''video/'' then VIDEO
      else if startswith m ''audio/'' then AUDIO
      else DOCUMENT)"

text \<open>\<^verbatim>\<open>_is_valid_file\<close>.\<close>

definition is_valid_file :: "bytes \<Rightarrow> string \<Rightarrow> bool" where
  "is_valid_file content m =
     (if length content = 0 \<or> length content > MAX_FILE_SIZE then False
      else if m \<notin> set ALLOWED_MIME_TYPES then False
      else True)"

text \<open>
  \<^verbatim>\<open>_save_file\<close>: makes the directory of the complaint, draws the random prefix of the
  file name, and writes the content. When the write raises, the directory has been made
  and the UUID drawn, and no file is there.
\<close>

definition save_file :: "faults \<Rightarrow> world \<Rightarrow> bytes \<Rightarrow> string \<Rightarrow> int \<Rightarrow> (error + string) \<times> world" where
  "save_file f w content fname cid =
     (let complaint_dir = UPLOAD_DIR @ ''/'' @ str_int cid;
          w1 = w\<lparr>dirs := insert complaint_dir (dirs w)\<rparr>
      in case uuid4 w1 of (u, w2) \<Rightarrow>
         (let safe_filename = uuid_hex u @ ''_'' @ fname;
              path = complaint_dir @ ''/'' @ safe_filename
          in case file_write_error f of
               Some e \<Rightarrow> (Inl e, w2)
             | None \<Rightarrow> (Inr path, w2\<lparr>files := (files w2)(path \<mapsto> content)\<rparr>)))"

text \<open>
  The \<^verbatim>\<open>while\<close> loop of \<^verbatim>\<open>create_complaint\<close>: as long as a complaint with the
  candidate code is stored, draw another one. The loop has no bound; a run that never
  leaves it is the value \<open>None\<close>.
\<close>

partial_function (option) ensure_unique :: "world \<Rightarrow> string \<Rightarrow> (string \<times> world) option" where
  "ensure_unique w t =
     (if select_by_tracking_id w t \<noteq> None
      then ensure_unique (snd (generate_tracking_id w)) (fst (generate_tracking_id w))
      else Some (t, w))"

text \<open>
  \<^verbatim>\<open>create_complaint\<close>. The two timestamps are two calls of \<^verbatim>\<open>datetime.utcnow()\<close>,
  the first for \<^verbatim>\<open>created_at\<close>. The result is \<open>None\<close> when the loop does not end,
  \<open>Some (Inl e, w')\<close> when the call raises \<open>e\<close>, and
  \<open>Some (Inr (complaint, tracking_id), w')\<close> when it returns. The insert appends the
  row with its new primary key; the uniqueness constraint that the schema puts on
  \<^verbatim>\<open>tracking_id\<close> is left out, so that what is proved about distinct codes rests on
  the loop alone.
\<close>

definition create_complaint ::
  "faults \<Rightarrow> world \<Rightarrow> ComplaintCreate \<Rightarrow> string option
     \<Rightarrow> ((error + Complaint \<times> string) \<times> world) option" where
  "create_complaint f w complaint_data client_ip =
     (case generate_tracking_id w of (t0, w0) \<Rightarrow>
      (case db_read_error f of
         Some e \<Rightarrow> Some (Inl e, w0)
       | None \<Rightarrow>
          (case ensure_unique w0 t0 of
             None \<Rightarrow> None
           | Some (t, w1) \<Rightarrow>
              (case utcnow w1 of (now1, w2) \<Rightarrow>
               (case utcnow w2 of (now2, w3) \<Rightarrow>
                (let complaint =
                       \<lparr>Complaint.id = None,
                        Complaint.tracking_id = t,
                        Complaint.title = ComplaintCreate.title complaint_data,
                        Complaint.description = ComplaintCreate.description complaint_data,
                        Complaint.category = ComplaintCreate.category complaint_data,
                        Complaint.urgency = ComplaintCreate.urgency complaint_data,
                        Complaint.incident_date = ComplaintCreate.incident_date complaint_data,
                        Complaint.incident_location =
                          ComplaintCreate.incident_location complaint_data,
                        Complaint.officer_badge_number =
                          ComplaintCreate.officer_badge_number complaint_data,
                        Complaint.officer_name = ComplaintCreate.officer_name complaint_data,
                        Complaint.contact_email = ComplaintCreate.contact_email complaint_data,
                        Complaint.contact_phone = ComplaintCreate.contact_phone complaint_data,
                        Complaint.status = PENDING,
                        Complaint.created_at = now1,
                        Complaint.updated_at = now2,
                        Complaint.submitted_ip = client_ip,
                        Complaint.additional_metadata = []\<rparr>
                 in case db_write_error f of
                      Some e \<Rightarrow> Some (Inl e, w3)
                    | None \<Rightarrow>
                       (let stored = complaint
                              \<lparr>Complaint.id :=
                                 Some (next_id (map Complaint.id (complaints w3)))\<rparr>
                        in Some (Inr (stored, t),
                                 w3\<lparr>complaints := complaints w3 @ [stored]\<rparr>))))))))"

text \<open>
  \<^verbatim>\<open>add_media_attachment\<close>. Its first argument stands for \<^verbatim>\<open>_calculate_file_hash\<close>, the
  SHA-256 digest of the content in hexadecimal, which comes from \<^verbatim>\<open>hashlib\<close> and is
  taken as given. The result is \<open>Inr None\<close> for the two early returns,
  \<open>Inr (Some attachment)\<close> for the stored row, \<open>Inl e\<close> when the call raises \<open>e\<close>.
  An exception of \<^verbatim>\<open>_save_file\<close> leaves \<^verbatim>\<open>file_path\<close> unbound, so the handler has
  nothing to delete; an exception of the insert finds \<^verbatim>\<open>file_path\<close> bound, deletes the
  file when it exists, ignores what \<^verbatim>\<open>unlink\<close> raises, and raises the exception it
  caught.
\<close>

definition add_media_attachment ::
  "(bytes \<Rightarrow> string) \<Rightarrow> faults \<Rightarrow> world \<Rightarrow> int \<Rightarrow> string \<Rightarrow> bytes \<Rightarrow> string
     \<Rightarrow> (error + MediaAttachment option) \<times> world" where
  "add_media_attachment calculate_file_hash f w cid fname content mtype =
     (if \<not> is_valid_file content mtype then (Inr None, w)
      else case db_read_error f of
        Some e \<Rightarrow> (Inl e, w)
      | None \<Rightarrow>
         (case session_get_Complaint w cid of
            None \<Rightarrow> (Inr None, w)
          | Some complaint \<Rightarrow>
             (case save_file f w content fname cid of
                (Inl e, w1) \<Rightarrow> (Inl e, w1)
              | (Inr path, w1) \<Rightarrow>
                 (case utcnow w1 of (now, w2) \<Rightarrow>
                  (let attachment =
                         \<lparr>MediaAttachment.id = None,
                          filename = path_name path,
                          original_filename = fname,
                          file_path = path,
                          file_size = length content,
                          mime_type = mtype,
                          media_type = determine_media_type mtype,
                          file_hash = calculate_file_hash content,
                          uploaded_at = now,
                          is_processed = True,
                          complaint_id = cid\<rparr>
                   in case db_write_error f of
                        None \<Rightarrow>
                          (let stored = attachment
                                 \<lparr>MediaAttachment.id :=
                                    Some (next_id (map MediaAttachment.id (media_attachments w2)))\<rparr>
                           in (Inr (Some stored),
                               w2\<lparr>media_attachments := media_attachments w2 @ [stored]\<rparr>))
                      | Some e \<Rightarrow>
                          (if path \<in> dom (files w2)
                           then (case file_unlink_error f of
                                   None \<Rightarrow> (Inl e, w2\<lparr>files := (files w2)(path := None)\<rparr>)
                                 | Some e' \<Rightarrow> (Inl e, w2))
                           else (Inl e, w2)))))))"

text \<open>The projection built at the end of each of the three read operations.\<close>

definition public_view :: "Complaint \<Rightarrow> ComplaintPublic" where
  "public_view complaint =
     \<lparr>ComplaintPublic.tracking_id = Complaint.tracking_id complaint,
      ComplaintPublic.title = Complaint.title complaint,
      ComplaintPublic.category = Complaint.category complaint,
      ComplaintPublic.status = Complaint.status complaint,
      ComplaintPublic.created_at = Complaint.created_at complaint,
      ComplaintPublic.updated_at = Complaint.updated_at complaint\<rparr>"

text \<open>\<^verbatim>\<open>get_complaint_by_tracking_id\<close>.\<close>

definition get_complaint_by_tracking_id :: "world \<Rightarrow> string \<Rightarrow> ComplaintPublic option" where
  "get_complaint_by_tracking_id w t =
     (case select_by_tracking_id w t of
        None \<Rightarrow> None
      | Some complaint \<Rightarrow> Some (public_view complaint))"

text \<open>
  \<^verbatim>\<open>order_by(desc(Complaint.created_at))\<close>: the rows by falling creation time. SQL
  leaves the order of rows with equal keys open; here they keep their table order.
\<close>

definition order_by_desc_created_at :: "Complaint list \<Rightarrow> Complaint list" where
  "order_by_desc_created_at rows = sort_key (\<lambda>c. - Complaint.created_at c) rows"

text \<open>\<^verbatim>\<open>get_all_complaints\<close>.\<close>

definition get_all_complaints :: "world \<Rightarrow> nat \<Rightarrow> ComplaintPublic list" where
  "get_all_complaints w limit =
     map public_view (take limit (order_by_desc_created_at (complaints w)))"

text \<open>
  \<^verbatim>\<open>get_complaint_statistics\<close>. The returned dictionary has four fixed keys and is a
  record here; its \<^verbatim>\<open>"categories"\<close> entry is the dictionary filled by the loop over
  the enum.
\<close>

record statistics =
  total_complaints :: nat
  pending_complaints :: nat
  resolved_complaints :: nat
  categories :: "string \<rightharpoonup> nat"

definition get_complaint_statistics :: "world \<Rightarrow> statistics" where
  "get_complaint_statistics w =
     \<lparr>total_complaints = length (complaints w),
      pending_complaints =
        length (filter (\<lambda>c. Complaint.status c = PENDING) (complaints w)),
      resolved_complaints =
        length (filter (\<lambda>c. Complaint.status c = RESOLVED) (complaints w)),
      categories =
        fold (\<lambda>cat m. m(category_value cat \<mapsto>
                          length (filter (\<lambda>c. Complaint.category c = cat) (complaints w))))
             ComplaintCategory_members Map.empty\<rparr>"

text \<open>
  \<^verbatim>\<open>search_complaints\<close>. A filter is applied when its argument is truthy: every enum
  member is (its value is a non-empty string), a tracking-code text is unless it is
  empty. The tracking-code filter is
  \<^verbatim>\<open>upper(tracking_id) LIKE '%' || text.upper() || '%'\<close>.
\<close>

definition search_complaints ::
  "world \<Rightarrow> ComplaintCategory option \<Rightarrow> ComplaintStatus option \<Rightarrow> string option
     \<Rightarrow> ComplaintPublic list" where
  "search_complaints w cat st tid =
     (let q0 = complaints w;
          q1 = (case cat of None \<Rightarrow> q0
                | Some c \<Rightarrow> filter (\<lambda>r. Complaint.category r = c) q0);
          q2 = (case st of None \<Rightarrow> q1
                | Some s \<Rightarrow> filter (\<lambda>r. Complaint.status r = s) q1);
          q3 = (case tid of None \<Rightarrow> q2
                | Some t \<Rightarrow>
                    if t = [] then q2
                    else filter (\<lambda>r. sql_like (''%'' @ upper t @ ''%'')
                                               (upper (Complaint.tracking_id r))) q2)
      in map public_view (take 50 (order_by_desc_created_at q3)))"

text \<open>
  The three \<^verbatim>\<open>where\<close> clauses that \<open>search_complaints\<close> adds to its query, as one
  predicate on a row.
\<close>

definition search_filter ::
  "ComplaintCategory option \<Rightarrow> ComplaintStatus option \<Rightarrow> string option \<Rightarrow> Complaint \<Rightarrow> bool" where
  "search_filter cat st tid r =
     ((case cat of None \<Rightarrow> True | Some c \<Rightarrow> Complaint.category r = c)
      \<and> (case st of None \<Rightarrow> True | Some s \<Rightarrow> Complaint.status r = s)
      \<and> (case tid of None \<Rightarrow> True
          | Some t \<Rightarrow> t = [] \<or> sql_like (''%'' @ upper t @ ''%'') (upper (Complaint.tracking_id r))))"

section \<open>Example inputs\<close>

text \<open>
  Concrete inputs on which the operations are run below. \<open>example_rand\<close> returns
  every UUID twice in a row, so that a second creation first draws the code of the
  first one. \<open>empty_world\<close> has an empty store; \<open>example_world\<close> is what one
  creation of \<open>example_draft\<close> makes of it.
\<close>

definition example_rand :: "nat \<Rightarrow> uuid" where
  "example_rand k = word_of_nat (k div 2) * 2 ^ 96"

definition example_draft :: ComplaintCreate where
  "example_draft =
     \<lparr>ComplaintCreate.title = ''Short'', ComplaintCreate.description = ''A bit longer'',
      ComplaintCreate.category = OTHER, ComplaintCreate.urgency = MEDIUM,
      ComplaintCreate.incident_date = None, ComplaintCreate.incident_location = None,
      ComplaintCreate.officer_badge_number = None, ComplaintCreate.officer_name = None,
      ComplaintCreate.contact_email = None, ComplaintCreate.contact_phone = None\<rparr>"

definition empty_world :: world where
  "empty_world =
     \<lparr>complaints = [], media_attachments = [], files = Map.empty, dirs = {},
      rand = example_rand, rand_pos = 0, clock = (\<lambda>k. 100 + int k), ticks = 0\<rparr>"

definition example_complaint :: Complaint where
  "example_complaint =
     \<lparr>Complaint.id = Some 1, Complaint.tracking_id = ''PC-00000000'',
      Complaint.title = ''Short'', Complaint.description = ''A bit longer'',
      Complaint.category = OTHER, Complaint.urgency = MEDIUM,
      Complaint.incident_date = None, Complaint.incident_location = None,
      Complaint.officer_badge_number = None, Complaint.officer_name = None,
      Complaint.contact_email = None, Complaint.contact_phone = None,
      Complaint.status = PENDING, Complaint.created_at = 100, Complaint.updated_at = 101,
      Complaint.submitted_ip = None, Complaint.additional_metadata = []\<rparr>"

definition example_world :: world where
  "example_world =
     \<lparr>complaints = [example_complaint], media_attachments = [], files = Map.empty, dirs = {},
      rand = example_rand, rand_pos = 1, clock = (\<lambda>k. 100 + int k), ticks = 2\<rparr>"

text \<open>
  A stand-in for the hash function, and the row that attaching the three bytes
  \<open>[1, 2, 3]\<close> as \<^verbatim>\<open>test.jpg\<close> to the complaint of \<open>example_world\<close> stores.
\<close>

definition example_hash :: "bytes \<Rightarrow> string" where
  "example_hash b = []"

definition example_attachment :: MediaAttachment where
  "example_attachment =
     \<lparr>MediaAttachment.id = Some 1,
      filename = ''00000000000000000000000000000000_test.jpg'',
      original_filename = ''test.jpg'',
      file_path = ''uploads/1/00000000000000000000000000000000_test.jpg'',
      file_size = 3, mime_type = ''image/jpeg'', media_type = IMAGE, file_hash = [],
      uploaded_at = 102, is_processed = True, complaint_id = 1\<rparr>"

text \<open>Environments in which the insert fails, the insert and the deletion fail, the store cannot be read.\<close>

definition insert_fails :: faults where
  "insert_fails = no_faults\<lparr>db_write_error := Some (SQLAlchemyError ''commit'')\<rparr>"

definition insert_and_unlink_fail :: faults where
  "insert_and_unlink_fail = insert_fails\<lparr>file_unlink_error := Some (OSError ''unlink'')\<rparr>"

definition store_down :: faults where
  "store_down = no_faults\<lparr>db_read_error := Some (SQLAlchemyError ''connection refused'')\<rparr>"

text \<open>The row that a second creation of \<open>example_draft\<close> adds to \<open>example_world\<close>.\<close>

definition second_complaint :: Complaint where
  "second_complaint =
     example_complaint\<lparr>Complaint.id := Some 2, Complaint.tracking_id := ''PC-00000001'',
       Complaint.created_at := 102, Complaint.updated_at := 103\<rparr>"

text \<open>
  \<open>example_world\<close> with other values in the fields of the complaint that the public
  view leaves out.
\<close>

definition example_world_other_private :: world where
  "example_world_other_private =
     example_world\<lparr>complaints :=
       [example_complaint\<lparr>Complaint.description := ''Something else'',
          Complaint.officer_name := Some ''Officer Smith'',
          Complaint.officer_badge_number := Some ''1234'',
          Complaint.contact_email := Some ''witness@example.com'',
          Complaint.contact_phone := Some ''555-0123'',
          Complaint.submitted_ip := Some ''127.0.0.1''\<rparr>]\<rparr>"

text \<open>
  Two misconduct complaints and one harassment complaint, created in this order in
  \<open>empty_world\<close>: the drafts, the rows, and the world after each creation.
\<close>

definition misconduct_draft :: ComplaintCreate where
  "misconduct_draft = example_draft\<lparr>ComplaintCreate.category := MISCONDUCT\<rparr>"

definition harassment_draft :: ComplaintCreate where
  "harassment_draft = example_draft\<lparr>ComplaintCreate.category := HARASSMENT\<rparr>"

definition misconduct_1 :: Complaint where
  "misconduct_1 = example_complaint\<lparr>Complaint.category := MISCONDUCT\<rparr>"

definition misconduct_2 :: Complaint where
  "misconduct_2 = second_complaint\<lparr>Complaint.category := MISCONDUCT\<rparr>"

definition harassment_3 :: Complaint where
  "harassment_3 =
     example_complaint\<lparr>Complaint.id := Some 3, Complaint.tracking_id := ''PC-00000002'',
       Complaint.category := HARASSMENT,
       Complaint.created_at := 104, Complaint.updated_at := 105\<rparr>"

definition world_1 :: world where
  "world_1 = empty_world\<lparr>complaints := [misconduct_1], rand_pos := 1, ticks := 2\<rparr>"

definition world_2 :: world where
  "world_2 = empty_world\<lparr>complaints := [misconduct_1, misconduct_2], rand_pos := 3, ticks := 4\<rparr>"

definition world_3 :: world where
  "world_3 =
     empty_world\<lparr>complaints := [misconduct_1, misconduct_2, harassment_3],
       rand_pos := 5, ticks := 6\<rparr>"

section \<open>Strings and validation: basic facts\<close>

lemma startswith_prefix: "startswith s p = prefix p s"
  by (auto simp: startswith_def prefix_def) (metis append_eq_conv_conj)

lemma rev_upt_32:
  "rev [0..<32] =
     [31, 30, 29, 28, 27, 26, 25, 24, 23, 22, 21, 20, 19, 18, 17, 16,
      15, 14, 13, 12, 11, 10, 9, 8, 7, 6, 5, 4, 3, 2, 1, 0::nat]"
  by (simp add: upt_conv_Cons)

lemma is_valid_file_iff:
  "is_valid_file content m =
     (content \<noteq> [] \<and> length content \<le> 50 * 1024 * 1024 \<and> m \<in> set ALLOWED_MIME_TYPES)"
  by (auto simp: is_valid_file_def MAX_FILE_SIZE_def)

lemma session_get_None_iff:
  "(session_get_Complaint w k = None) = (\<forall>c\<in>set (complaints w). Complaint.id c \<noteq> Some k)"
  by (auto simp: session_get_Complaint_def find_None_iff)

section \<open>Attachments\<close>

lemma add_absent:
  "(fst (add_media_attachment h f w cid fname content m) = Inr None) =
     (\<not> is_valid_file content m \<or> (db_read_error f = None \<and> session_get_Complaint w cid = None))"
  by (auto simp: add_media_attachment_def Let_def utcnow_def
           split: option.splits sum.splits prod.splits if_splits)

lemma add_absent_world:
  "fst (add_media_attachment h f w cid fname content m) = Inr None \<Longrightarrow>
     snd (add_media_attachment h f w cid fname content m) = w"
  by (auto simp: add_media_attachment_def Let_def utcnow_def
           split: option.splits sum.splits prod.splits if_splits)

text \<open>The run of \<open>add_media_attachment\<close> on the example world, step by step.\<close>

lemma example_uuid_hex:
  "uuid_hex (example_rand (Suc 0)) = ''00000000000000000000000000000000''"
  by (simp add: uuid_hex_def rev_upt_32 hex_digit_def example_rand_def)

lemma example_session_get: "session_get_Complaint example_world 1 = Some example_complaint"
  by (simp add: session_get_Complaint_def example_world_def example_complaint_def)

lemma example_save_file:
  "save_file f example_world [1, 2, 3] ''test.jpg'' 1 =
     (case file_write_error f of
        Some e \<Rightarrow> (Inl e, example_world\<lparr>dirs := {''uploads/1''}, rand_pos := 2\<rparr>)
      | None \<Rightarrow>
         (Inr ''uploads/1/00000000000000000000000000000000_test.jpg'',
          example_world\<lparr>dirs := {''uploads/1''}, rand_pos := 2,
            files := [''uploads/1/00000000000000000000000000000000_test.jpg'' \<mapsto> [1, 2, 3]]\<rparr>))"
  by (simp add: save_file_def Let_def uuid4_def UPLOAD_DIR_def str_int_def example_world_def
        example_uuid_hex split: option.splits)

lemma example_valid: "is_valid_file [1, 2, 3] ''image/jpeg''"
  by (simp add: is_valid_file_def MAX_FILE_SIZE_def ALLOWED_MIME_TYPES_def)

lemma example_add:
  "fst (add_media_attachment example_hash no_faults example_world 1 ''test.jpg'' [1, 2, 3]
          ''image/jpeg'')
     = Inr (Some example_attachment)"
  apply (simp add: add_media_attachment_def example_valid example_session_get example_save_file
        no_faults_def Let_def utcnow_def example_attachment_def path_name_def
        determine_media_type_def startswith_def next_id_def example_hash_def)
  apply (simp add: example_world_def)
  done

text \<open>
  C9. The media type of a stored attachment is \<open>determine_media_type\<close> of its MIME type,
  and \<open>determine_media_type\<close> looks at the prefix only: a type that starts with
  \<^verbatim>\<open>image/\<close> is an image, with \<^verbatim>\<open>video/\<close> a video, with \<^verbatim>\<open>audio/\<close> an audio, and
  every other type, \<^verbatim>\<open>application/pdf\<close> and \<^verbatim>\<open>text/plain\<close> among them, a document.
\<close>

theorem media_type_from_prefix:
  "determine_media_type m =
     (if prefix ''image/'' m then IMAGE
      else if prefix ''video/'' m then VIDEO
      else if prefix ''audio/'' m then AUDIO
      else DOCUMENT)
   \<and> determine_media_type ''application/pdf'' = DOCUMENT
   \<and> determine_media_type ''text/plain'' = DOCUMENT
   \<and> (fst (add_media_attachment h f w cid fname content m) = Inr (Some a) \<longrightarrow>
        m \<in> set ALLOWED_MIME_TYPES
        \<and> MediaAttachment.mime_type a = m
        \<and> MediaAttachment.media_type a = determine_media_type m
        \<and> a \<in> set (media_attachments (snd (add_media_attachment h f w cid fname content m))))"
proof -
  have "determine_media_type m =
     (if prefix ''image/'' m then IMAGE
      else if prefix ''video/'' m then VIDEO
      else if prefix ''audio/'' m then AUDIO
      else DOCUMENT)"
    by (simp add: determine_media_type_def startswith_prefix)
  moreover have "determine_media_type ''application/pdf'' = DOCUMENT"
    by (simp add: determine_media_type_def startswith_def)
  moreover have "determine_media_type ''text/plain'' = DOCUMENT"
    by (simp add: determine_media_type_def startswith_def)
  moreover have "fst (add_media_attachment h f w cid fname content m) = Inr (Some a) \<longrightarrow>
        m \<in> set ALLOWED_MIME_TYPES
        \<and> MediaAttachment.mime_type a = m
        \<and> MediaAttachment.media_type a = determine_media_type m
        \<and> a \<in> set (media_attachments (snd (add_media_attachment h f w cid fname content m)))"
    by (auto simp: add_media_attachment_def Let_def utcnow_def is_valid_file_iff
             split: option.splits sum.splits prod.splits if_splits)
  ultimately show ?thesis by blast
qed

theorem media_type_from_prefix_witness:
  "fst (add_media_attachment example_hash no_faults example_world 1 ''test.jpg'' [1, 2, 3]
          ''image/jpeg'')
     = Inr (Some example_attachment)
   \<and> MediaAttachment.media_type example_attachment = IMAGE
   \<and> determine_media_type ''image/jpeg'' = IMAGE"
  using media_type_from_prefix [of "''image/jpeg''" example_hash no_faults example_world 1
          "''test.jpg''" "[1, 2, 3]" example_attachment] example_add
  by (simp add: example_attachment_def)

text \<open>
  C1. \<open>add_media_attachment\<close> returns nothing, without raising, exactly when the content
  is empty, or is longer than 50 * 1024 * 1024 bytes, or the declared MIME type is none
  of the twelve allowed ones, or the lookup of the complaint finds no row with that
  id (the lookup has to answer for that: when the store raises instead, the call
  raises). Content of exactly 50 * 1024 * 1024 bytes passes the validation, one byte
  more does not.
\<close>

theorem add_media_attachment_absent_iff:
  "(fst (add_media_attachment h f w cid fname content m) = Inr None) =
     (length content = 0 \<or> 50 * 1024 * 1024 < length content
      \<or> m \<notin> {''image/jpeg'', ''image/png'', ''image/gif'', ''image/webp'',
               ''video/mp4'', ''video/webm'', ''video/quicktime'',
               ''audio/mpeg'', ''audio/wav'', ''audio/ogg'',
               ''application/pdf'', ''text/plain''}
      \<or> (db_read_error f = None \<and> (\<forall>c\<in>set (complaints w). Complaint.id c \<noteq> Some cid)))
   \<and> is_valid_file (replicate (50 * 1024 * 1024) b) ''image/jpeg''
   \<and> \<not> is_valid_file (replicate (50 * 1024 * 1024 + 1) b) ''image/jpeg''"
proof -
  have "is_valid_file (replicate (50 * 1024 * 1024) b) ''image/jpeg''"
    by (simp add: is_valid_file_def MAX_FILE_SIZE_def ALLOWED_MIME_TYPES_def)
  moreover have "\<not> is_valid_file (replicate (50 * 1024 * 1024 + 1) b) ''image/jpeg''"
    by (simp add: is_valid_file_def MAX_FILE_SIZE_def)
  moreover have "(fst (add_media_attachment h f w cid fname content m) = Inr None) =
     (length content = 0 \<or> 50 * 1024 * 1024 < length content
      \<or> m \<notin> {''image/jpeg'', ''image/png'', ''image/gif'', ''image/webp'',
               ''video/mp4'', ''video/webm'', ''video/quicktime'',
               ''audio/mpeg'', ''audio/wav'', ''audio/ogg'',
               ''application/pdf'', ''text/plain''}
      \<or> (db_read_error f = None \<and> (\<forall>c\<in>set (complaints w). Complaint.id c \<noteq> Some cid)))"
    unfolding add_absent session_get_None_iff is_valid_file_iff
    by (simp add: ALLOWED_MIME_TYPES_def) linarith
  ultimately show ?thesis by blast
qed

theorem add_media_attachment_absent_iff_witness:
  "fst (add_media_attachment example_hash no_faults example_world 99999 ''test.jpg'' [1, 2, 3]
          ''image/jpeg'') = Inr None
   \<and> fst (add_media_attachment example_hash no_faults example_world 1 ''test.exe'' [1, 2, 3]
          ''application/x-executable'') = Inr None
   \<and> fst (add_media_attachment example_hash no_faults example_world 1 ''test.jpg'' []
          ''image/jpeg'') = Inr None
   \<and> fst (add_media_attachment example_hash no_faults example_world 1 ''test.jpg'' [1, 2, 3]
          ''image/jpeg'') \<noteq> Inr None"
  using add_media_attachment_absent_iff [of example_hash no_faults example_world 99999
          "''test.jpg''" "[1, 2, 3]" "''image/jpeg''"]
        add_media_attachment_absent_iff [of example_hash no_faults example_world 1
          "''test.exe''" "[1, 2, 3]" "''application/x-executable''"]
        add_media_attachment_absent_iff [of example_hash no_faults example_world 1
          "''test.jpg''" "[]" "''image/jpeg''"]
        add_media_attachment_absent_iff [of example_hash no_faults example_world 1
          "''test.jpg''" "[1, 2, 3]" "''image/jpeg''"]
  by (simp add: no_faults_def example_world_def example_complaint_def)

text \<open>
  C10. When \<open>add_media_attachment\<close> returns nothing, the world it leaves is the world
  it found: no file and no directory is made, no row is inserted, no complaint or
  attachment is changed, and neither the random source nor the clock is read. The
  validation of content and MIME type comes before the lookup of the complaint: invalid
  input returns nothing whatever the store holds and even when the store cannot be read,
  and a store that cannot be read makes the call raise only for valid input.
\<close>

theorem absent_without_side_effects:
  "(fst (add_media_attachment h f w cid fname content m) = Inr None \<longrightarrow>
      snd (add_media_attachment h f w cid fname content m) = w)
   \<and> (\<not> is_valid_file content m \<longrightarrow>
        add_media_attachment h f w cid fname content m = (Inr None, w))
   \<and> (is_valid_file content m \<and> db_read_error f = Some e \<longrightarrow>
        add_media_attachment h f w cid fname content m = (Inl e, w))"
proof -
  have "\<not> is_valid_file content m \<longrightarrow>
        add_media_attachment h f w cid fname content m = (Inr None, w)"
    by (simp add: add_media_attachment_def)
  moreover have "is_valid_file content m \<and> db_read_error f = Some e \<longrightarrow>
        add_media_attachment h f w cid fname content m = (Inl e, w)"
    by (simp add: add_media_attachment_def)
  ultimately show ?thesis
    using add_absent_world [of h f w cid fname content m] by blast
qed

theorem absent_without_side_effects_witness:
  "add_media_attachment example_hash store_down example_world 1 ''test.jpg'' [] ''image/jpeg''
     = (Inr None, example_world)
   \<and> add_media_attachment example_hash store_down example_world 1 ''test.jpg'' [1, 2, 3]
        ''image/jpeg''
     = (Inl (SQLAlchemyError ''connection refused''), example_world)
   \<and> add_media_attachment example_hash no_faults example_world 99999 ''test.jpg'' [1, 2, 3]
        ''image/jpeg''
     = (Inr None, example_world)"
proof -
  have a: "\<not> is_valid_file [] ''image/jpeg''"
    by (simp add: is_valid_file_def)
  have b: "db_read_error store_down = Some (SQLAlchemyError ''connection refused'')"
    by (simp add: store_down_def no_faults_def)
  have c: "fst (add_media_attachment example_hash no_faults example_world 99999 ''test.jpg''
                  [1, 2, 3] ''image/jpeg'') = Inr None"
    by (simp add: add_absent example_valid no_faults_def session_get_Complaint_def
          example_world_def example_complaint_def)
  show ?thesis
    using a b c example_valid
      absent_without_side_effects [of example_hash store_down example_world 1 "''test.jpg''"
        "[]" "''image/jpeg''"]
      absent_without_side_effects [of example_hash store_down example_world 1 "''test.jpg''"
        "[1, 2, 3]" "''image/jpeg''" "SQLAlchemyError ''connection refused''"]
      absent_without_side_effects [of example_hash no_faults example_world 99999 "''test.jpg''"
        "[1, 2, 3]" "''image/jpeg''"]
    by (simp add: prod_eq_iff)
qed

text \<open>What a successful \<open>save_file\<close> leaves behind.\<close>

lemma save_file_files:
  "save_file f w content fname cid = (Inr p, w1) \<Longrightarrow>
     file_write_error f = None \<and> files w1 = (files w)(p \<mapsto> content)
     \<and> complaints w1 = complaints w \<and> media_attachments w1 = media_attachments w"
  by (auto simp: save_file_def Let_def uuid4_def split: option.splits)

text \<open>
  C2. Let the file have been written (\<open>save_file\<close> returned its path \<open>p\<close>) and let the
  insert of the attachment row raise \<open>e\<close>. Then the call raises \<open>e\<close>, whether or not
  the deletion of the file succeeds; when \<open>unlink\<close> succeeds the file at \<open>p\<close> is gone,
  when \<open>unlink\<close> raises its exception is dropped and the file stays; no row is added
  to either table.
\<close>

theorem insert_failure_cleanup:
  assumes "is_valid_file content m"
    and "db_read_error f = None"
    and "session_get_Complaint w cid = Some c"
    and "save_file f w content fname cid = (Inr p, w1)"
    and "db_write_error f = Some e"
  shows "files w1 p = Some content
    \<and> fst (add_media_attachment h f w cid fname content m) = Inl e
    \<and> (file_unlink_error f = None \<longrightarrow>
         files (snd (add_media_attachment h f w cid fname content m)) = (files w1)(p := None))
    \<and> (file_unlink_error f \<noteq> None \<longrightarrow>
         files (snd (add_media_attachment h f w cid fname content m)) = files w1)
    \<and> media_attachments (snd (add_media_attachment h f w cid fname content m))
         = media_attachments w
    \<and> complaints (snd (add_media_attachment h f w cid fname content m)) = complaints w"
  using assms save_file_files [OF assms(4)]
  by (auto simp: add_media_attachment_def Let_def utcnow_def split: option.splits)

theorem insert_failure_cleanup_witness:
  "fst (add_media_attachment example_hash insert_fails example_world 1 ''test.jpg'' [1, 2, 3]
         ''image/jpeg'') = Inl (SQLAlchemyError ''commit'')
   \<and> files (snd (add_media_attachment example_hash insert_fails example_world 1 ''test.jpg''
         [1, 2, 3] ''image/jpeg'')) = Map.empty
   \<and> fst (add_media_attachment example_hash insert_and_unlink_fail example_world 1 ''test.jpg''
         [1, 2, 3] ''image/jpeg'') = Inl (SQLAlchemyError ''commit'')
   \<and> files (snd (add_media_attachment example_hash insert_and_unlink_fail example_world 1
         ''test.jpg'' [1, 2, 3] ''image/jpeg''))
       = [''uploads/1/00000000000000000000000000000000_test.jpg'' \<mapsto> [1, 2, 3]]"
proof -
  have s1: "save_file insert_fails example_world [1, 2, 3] ''test.jpg'' 1 =
      (Inr ''uploads/1/00000000000000000000000000000000_test.jpg'',
       example_world\<lparr>dirs := {''uploads/1''}, rand_pos := 2,
         files := [''uploads/1/00000000000000000000000000000000_test.jpg'' \<mapsto> [1, 2, 3]]\<rparr>)"
    by (simp add: example_save_file insert_fails_def no_faults_def)
  have s2: "save_file insert_and_unlink_fail example_world [1, 2, 3] ''test.jpg'' 1 =
      (Inr ''uploads/1/00000000000000000000000000000000_test.jpg'',
       example_world\<lparr>dirs := {''uploads/1''}, rand_pos := 2,
         files := [''uploads/1/00000000000000000000000000000000_test.jpg'' \<mapsto> [1, 2, 3]]\<rparr>)"
    by (simp add: example_save_file insert_and_unlink_fail_def insert_fails_def no_faults_def)
  have f1: "db_read_error insert_fails = None"
           "db_write_error insert_fails = Some (SQLAlchemyError ''commit'')"
           "file_unlink_error insert_fails = None"
    by (simp_all add: insert_fails_def no_faults_def)
  have f2: "db_read_error insert_and_unlink_fail = None"
           "db_write_error insert_and_unlink_fail = Some (SQLAlchemyError ''commit'')"
           "file_unlink_error insert_and_unlink_fail \<noteq> None"
    by (simp_all add: insert_and_unlink_fail_def insert_fails_def no_faults_def)
  show ?thesis
    using insert_failure_cleanup [OF example_valid f1(1) example_session_get s1 f1(2),
            of example_hash]
          insert_failure_cleanup [OF example_valid f2(1) example_session_get s2 f2(2),
            of example_hash]
          f1(3) f2(3)
    by simp
qed

section \<open>Tracking codes\<close>

lemma upper_hex_digits: "map (\<lambda>k. upper_char (hex_digit k)) [0..<16] = ''0123456789ABCDEF''"
  by (simp add: upt_conv_Cons hex_digit_def upper_char_def)

lemma upper_hex_digit: 
  assumes "k < 16"
  shows "upper_char (hex_digit k) \<in> set ''0123456789ABCDEF''"
proof -
  have "map (\<lambda>k. upper_char (hex_digit k)) [0..<16] ! k = upper_char (hex_digit k)"
    using assms by (simp only: nth_map_upt) simp
  moreover have "map (\<lambda>k. upper_char (hex_digit k)) [0..<16] ! k \<in> set (map (\<lambda>k. upper_char (hex_digit k)) [0..<16])"
    using assms by (intro nth_mem) simp
  ultimately show ?thesis
    by (simp only: upper_hex_digits)
qed

lemma take_8_uuid_hex:
  "take 8 (uuid_hex u) =
     map (\<lambda>i. hex_digit (unat u div 16 ^ i mod 16)) [31, 30, 29, 28, 27, 26, 25, 24]"
  by (simp add: uuid_hex_def rev_upt_32)

lemma format_tracking_id_shape:
  "\<exists>h. format_tracking_id u = ''PC-'' @ h \<and> length h = 8 \<and> set h \<subseteq> set ''0123456789ABCDEF''"
proof -
  let ?h = "upper (take 8 (uuid_hex u))"
  have "length ?h = 8"
    by (simp add: upper_def take_8_uuid_hex)
  moreover have "set ?h \<subseteq> set ''0123456789ABCDEF''"
  proof
    fix c
    assume "c \<in> set ?h"
    then have "c \<in> upper_char ` set (uuid_hex u)"
      by (auto simp: upper_def dest: in_set_takeD)
    then obtain i where "c = upper_char (hex_digit (unat u div 16 ^ i mod 16))"
      by (auto simp: uuid_hex_def)
    then show "c \<in> set ''0123456789ABCDEF''"
      using upper_hex_digit [of "unat u div 16 ^ i mod 16"] by simp
  qed
  ultimately show ?thesis
    unfolding format_tracking_id_def by blast
qed

section \<open>Creating a complaint\<close>

text \<open>
  The loop ends only with a code that no stored complaint holds; on the way it draws
  \<open>n\<close> further UUIDs and touches nothing else. With \<open>n = 0\<close> the code is the one
  the loop was entered with, otherwise it is the last one drawn.
\<close>

lemma ensure_unique_sound:
  assumes "ensure_unique w t = Some y"
  shows "select_by_tracking_id w (fst y) = None \<and>
     (\<exists>n. snd y = w\<lparr>rand_pos := rand_pos w + n\<rparr> \<and>
          (if n = 0 then fst y = t else fst y = candidate w (n - 1)))"
proof (rule ensure_unique.raw_induct
    [where P = "\<lambda>w t y. select_by_tracking_id w (fst y) = None \<and>
       (\<exists>n. snd y = w\<lparr>rand_pos := rand_pos w + n\<rparr> \<and>
            (if n = 0 then fst y = t else fst y = candidate w (n - 1)))", OF _ assms])
  fix loop :: "world \<Rightarrow> string \<Rightarrow> (string \<times> world) option" and w t y
  assume IH: "\<And>w t y. loop w t = Some y \<Longrightarrow>
      select_by_tracking_id w (fst y) = None \<and>
      (\<exists>n. snd y = w\<lparr>rand_pos := rand_pos w + n\<rparr> \<and>
           (if n = 0 then fst y = t else fst y = candidate w (n - 1)))"
    and body: "(if select_by_tracking_id w t \<noteq> None
                then loop (snd (generate_tracking_id w)) (fst (generate_tracking_id w))
                else Some (t, w)) = Some y"
  show "select_by_tracking_id w (fst y) = None \<and>
      (\<exists>n. snd y = w\<lparr>rand_pos := rand_pos w + n\<rparr> \<and>
           (if n = 0 then fst y = t else fst y = candidate w (n - 1)))"
  proof (cases "select_by_tracking_id w t = None")
    case True
    with body have "y = (t, w)" by simp
    with True show ?thesis
      by (intro conjI exI [of _ 0]) simp_all
  next
    case False
    let ?w1 = "w\<lparr>rand_pos := Suc (rand_pos w)\<rparr>"
    have g: "generate_tracking_id w = (candidate w 0, ?w1)"
      by (simp add: generate_tracking_id_def uuid4_def candidate_def)
    from False body have "loop ?w1 (candidate w 0) = Some y"
      by (simp add: g)
    from IH [OF this] obtain n where
      fresh: "select_by_tracking_id ?w1 (fst y) = None" and
      st: "snd y = ?w1\<lparr>rand_pos := rand_pos ?w1 + n\<rparr>" and
      code: "if n = 0 then fst y = candidate w 0 else fst y = candidate ?w1 (n - 1)"
      by blast
    have "select_by_tracking_id w (fst y) = None"
      using fresh by (simp add: select_by_tracking_id_def)
    moreover have "snd y = w\<lparr>rand_pos := rand_pos w + Suc n\<rparr>"
      using st by simp
    moreover have "fst y = candidate w (Suc n - 1)"
      using code by (cases n) (simp_all add: candidate_def)
    ultimately show ?thesis
      by (intro conjI exI [of _ "Suc n"]) simp_all
  qed
qed

text \<open>The loop ends as soon as the random source offers a code that is not stored.\<close>

lemma ensure_unique_terminates:
  "select_by_tracking_id w (candidate w k) = None \<Longrightarrow> \<exists>y. ensure_unique w t = Some y"
proof (induction k arbitrary: w t)
  case 0
  let ?w1 = "w\<lparr>rand_pos := Suc (rand_pos w)\<rparr>"
  have g: "generate_tracking_id w = (candidate w 0, ?w1)"
    by (simp add: generate_tracking_id_def uuid4_def candidate_def)
  have "select_by_tracking_id ?w1 (candidate w 0) = None"
    using 0 by (simp add: select_by_tracking_id_def)
  then have "ensure_unique ?w1 (candidate w 0) = Some (candidate w 0, ?w1)"
    by (subst ensure_unique.simps) simp
  then show ?case
    by (subst ensure_unique.simps) (simp add: g)
next
  case (Suc k)
  let ?w1 = "w\<lparr>rand_pos := Suc (rand_pos w)\<rparr>"
  have g: "generate_tracking_id w = (candidate w 0, ?w1)"
    by (simp add: generate_tracking_id_def uuid4_def candidate_def)
  have "select_by_tracking_id ?w1 (candidate ?w1 k) = None"
    using Suc.prems by (simp add: select_by_tracking_id_def candidate_def)
  from Suc.IH [OF this] obtain y where "ensure_unique ?w1 (candidate w 0) = Some y"
    by blast
  then show ?case
    by (subst ensure_unique.simps) (simp add: g)
qed

lemma generate_tracking_id_eq:
  "generate_tracking_id w = (candidate w 0, w\<lparr>rand_pos := Suc (rand_pos w)\<rparr>)"
  by (simp add: generate_tracking_id_def uuid4_def candidate_def)

text \<open>
  What a returning \<open>create_complaint\<close> has done: it drew \<open>n + 1\<close> UUIDs, the last of
  which gave a code that was not stored, read the clock twice, and appended one row.
\<close>

lemma create_complaint_result:
  assumes "create_complaint f w d ip = Some (Inr (c, t), w')"
  shows "\<exists>n. t = candidate w n \<and> select_by_tracking_id w t = None
     \<and> w' = w\<lparr>complaints := complaints w @ [c], rand_pos := rand_pos w + Suc n,
              ticks := ticks w + 2\<rparr>
     \<and> c = \<lparr>Complaint.id = Some (next_id (map Complaint.id (complaints w))),
            Complaint.tracking_id = t,
            Complaint.title = ComplaintCreate.title d,
            Complaint.description = ComplaintCreate.description d,
            Complaint.category = ComplaintCreate.category d,
            Complaint.urgency = ComplaintCreate.urgency d,
            Complaint.incident_date = ComplaintCreate.incident_date d,
            Complaint.incident_location = ComplaintCreate.incident_location d,
            Complaint.officer_badge_number = ComplaintCreate.officer_badge_number d,
            Complaint.officer_name = ComplaintCreate.officer_name d,
            Complaint.contact_email = ComplaintCreate.contact_email d,
            Complaint.contact_phone = ComplaintCreate.contact_phone d,
            Complaint.status = PENDING,
            Complaint.created_at = clock w (ticks w),
            Complaint.updated_at = clock w (Suc (ticks w)),
            Complaint.submitted_ip = ip,
            Complaint.additional_metadata = []\<rparr>"
proof -
  let ?w0 = "w\<lparr>rand_pos := Suc (rand_pos w)\<rparr>"
  from assms have r: "db_read_error f = None"
    by (auto simp: create_complaint_def generate_tracking_id_eq split: option.splits)
  from assms r obtain t1 w1 where loop: "ensure_unique ?w0 (candidate w 0) = Some (t1, w1)"
    by (auto simp: create_complaint_def generate_tracking_id_eq split: option.splits)
  from ensure_unique_sound [OF loop] have
    "select_by_tracking_id ?w0 t1 = None \<and>
     (\<exists>n. w1 = ?w0\<lparr>rand_pos := rand_pos ?w0 + n\<rparr> \<and>
          (if n = 0 then t1 = candidate w 0 else t1 = candidate ?w0 (n - 1)))"
    by (simp only: fst_conv snd_conv)
  then obtain n where
    fresh: "select_by_tracking_id ?w0 t1 = None" and
    st: "w1 = ?w0\<lparr>rand_pos := rand_pos ?w0 + n\<rparr>" and
    code: "if n = 0 then t1 = candidate w 0 else t1 = candidate ?w0 (n - 1)"
    by blast
  have t1: "t1 = candidate w n"
    using code by (cases n) (simp_all add: candidate_def)
  have w1: "w1 = w\<lparr>rand_pos := rand_pos w + Suc n\<rparr>"
    using st by simp
  have fresh': "select_by_tracking_id w t1 = None"
    using fresh by (simp add: select_by_tracking_id_def)
  from assms r loop have "t = t1 \<and>
       w' = w1\<lparr>complaints := complaints w1 @ [c], ticks := ticks w1 + 2\<rparr> \<and>
       c = \<lparr>Complaint.id = Some (next_id (map Complaint.id (complaints w1))),
            Complaint.tracking_id = t,
            Complaint.title = ComplaintCreate.title d,
            Complaint.description = ComplaintCreate.description d,
            Complaint.category = ComplaintCreate.category d,
            Complaint.urgency = ComplaintCreate.urgency d,
            Complaint.incident_date = ComplaintCreate.incident_date d,
            Complaint.incident_location = ComplaintCreate.incident_location d,
            Complaint.officer_badge_number = ComplaintCreate.officer_badge_number d,
            Complaint.officer_name = ComplaintCreate.officer_name d,
            Complaint.contact_email = ComplaintCreate.contact_email d,
            Complaint.contact_phone = ComplaintCreate.contact_phone d,
            Complaint.status = PENDING,
            Complaint.created_at = clock w1 (ticks w1),
            Complaint.updated_at = clock w1 (Suc (ticks w1)),
            Complaint.submitted_ip = ip,
            Complaint.additional_metadata = []\<rparr>"
    by (auto simp: create_complaint_def generate_tracking_id_eq utcnow_def Let_def
             split: option.splits)
  then show ?thesis
    using t1 fresh' by (intro exI [of _ n]) (simp add: w1)
qed

text \<open>
  \<open>create_complaint\<close> returns whenever the store answers and the random source
  offers, at some point, a code that is not stored.
\<close>

lemma create_complaint_total:
  assumes "db_read_error f = None" and "db_write_error f = None"
    and "select_by_tracking_id w (candidate w k) = None"
  shows "\<exists>c t w'. create_complaint f w d ip = Some (Inr (c, t), w')"
proof -
  let ?w0 = "w\<lparr>rand_pos := Suc (rand_pos w)\<rparr>"
  have "\<exists>y. ensure_unique ?w0 (candidate w 0) = Some y"
  proof (cases k)
    case 0
    with assms(3) have "select_by_tracking_id ?w0 (candidate w 0) = None"
      by (simp add: select_by_tracking_id_def)
    then show ?thesis
      by (subst ensure_unique.simps) simp
  next
    case (Suc j)
    with assms(3) have "select_by_tracking_id ?w0 (candidate ?w0 j) = None"
      by (simp add: select_by_tracking_id_def candidate_def)
    then show ?thesis
      by (rule ensure_unique_terminates)
  qed
  then obtain t1 w1 where "ensure_unique ?w0 (candidate w 0) = Some (t1, w1)"
    by auto
  then show ?thesis
    using assms(1,2)
    by (simp add: create_complaint_def generate_tracking_id_eq utcnow_def Let_def)
qed

lemma select_None_iff:
  "(select_by_tracking_id w t = None) = (t \<notin> Complaint.tracking_id ` set (complaints w))"
  by (auto simp: select_by_tracking_id_def find_None_iff)

text \<open>The two creations that the examples use.\<close>

lemma empty_world_fields:
  "complaints empty_world = []" "rand empty_world = example_rand" "rand_pos empty_world = 0"
  "clock empty_world k = 100 + int k" "ticks empty_world = 0"
  by (simp_all add: empty_world_def)

lemma example_world_fields:
  "complaints example_world = [example_complaint]" "rand example_world = example_rand"
  "rand_pos example_world = Suc 0" "clock example_world k = 100 + int k"
  "ticks example_world = 2"
  by (simp_all add: example_world_def)

lemma example_candidates:
  "format_tracking_id (example_rand 0) = ''PC-00000000''"
  "format_tracking_id (example_rand (Suc 0)) = ''PC-00000000''"
  "format_tracking_id (example_rand 2) = ''PC-00000001''"
  by (simp_all add: format_tracking_id_def take_8_uuid_hex hex_digit_def upper_def
        upper_char_def example_rand_def)

lemma example_create_first:
  "create_complaint no_faults empty_world example_draft None
     = Some (Inr (example_complaint, ''PC-00000000''), example_world)"
proof -
  have "ensure_unique (empty_world\<lparr>rand_pos := Suc 0\<rparr>) ''PC-00000000''
          = Some (''PC-00000000'', empty_world\<lparr>rand_pos := Suc 0\<rparr>)"
    by (subst ensure_unique.simps) (simp add: select_by_tracking_id_def empty_world_def)
  then show ?thesis
    apply (simp add: create_complaint_def generate_tracking_id_eq candidate_def no_faults_def
        utcnow_def Let_def example_candidates empty_world_fields)
    apply (simp add: empty_world_def example_world_def example_complaint_def example_draft_def
        next_id_def)
    done
qed

lemma example_create_second:
  "create_complaint no_faults example_world example_draft None
     = Some (Inr (second_complaint, ''PC-00000001''),
             example_world\<lparr>complaints := [example_complaint, second_complaint],
               rand_pos := 3, ticks := 4\<rparr>)"
proof -
  have stored: "select_by_tracking_id (example_world\<lparr>rand_pos := 2\<rparr>) ''PC-00000000'' \<noteq> None"
    by (simp add: select_by_tracking_id_def example_world_def example_complaint_def)
  have fresh: "select_by_tracking_id (example_world\<lparr>rand_pos := 3\<rparr>) ''PC-00000001'' = None"
    by (simp add: select_by_tracking_id_def example_world_def example_complaint_def)
  have gen: "generate_tracking_id (example_world\<lparr>rand_pos := 2\<rparr>)
               = (''PC-00000001'', example_world\<lparr>rand_pos := 3\<rparr>)"
    by (simp add: generate_tracking_id_eq candidate_def example_candidates
          example_world_fields)
  have "ensure_unique (example_world\<lparr>rand_pos := 3\<rparr>) ''PC-00000001''
          = Some (''PC-00000001'', example_world\<lparr>rand_pos := 3\<rparr>)"
    by (subst ensure_unique.simps) (simp add: fresh)
  then have "ensure_unique (example_world\<lparr>rand_pos := 2\<rparr>) ''PC-00000000''
          = Some (''PC-00000001'', example_world\<lparr>rand_pos := 3\<rparr>)"
    by (subst ensure_unique.simps) (simp add: stored gen)
  then show ?thesis
    apply (simp add: create_complaint_def generate_tracking_id_eq candidate_def no_faults_def
        utcnow_def Let_def example_candidates example_world_fields
        numeral_2_eq_2 [symmetric])
    apply (simp add: example_world_def example_complaint_def second_complaint_def
        example_draft_def next_id_def)
    done
qed

text \<open>
  C4. A tracking code is \<^verbatim>\<open>PC-\<close> followed by exactly eight characters, each a digit or
  a letter from \<^verbatim>\<open>A\<close> to \<^verbatim>\<open>F\<close>. This holds for the formatting of every UUID, hence
  for what the generator returns, and the code that \<open>create_complaint\<close> assigns and
  returns is one of the generator's.
\<close>

theorem tracking_id_pattern:
  "(\<exists>h. format_tracking_id u = ''PC-'' @ h \<and> length h = 8
        \<and> set h \<subseteq> set ''0123456789ABCDEF'')
   \<and> (\<exists>h. fst (generate_tracking_id w) = ''PC-'' @ h \<and> length h = 8
        \<and> set h \<subseteq> set ''0123456789ABCDEF'')
   \<and> (create_complaint f w d ip = Some (Inr (c, t), w') \<longrightarrow>
        Complaint.tracking_id c = t
        \<and> (\<exists>h. t = ''PC-'' @ h \<and> length h = 8 \<and> set h \<subseteq> set ''0123456789ABCDEF''))"
proof -
  have "create_complaint f w d ip = Some (Inr (c, t), w') \<longrightarrow>
        Complaint.tracking_id c = t
        \<and> (\<exists>h. t = ''PC-'' @ h \<and> length h = 8 \<and> set h \<subseteq> set ''0123456789ABCDEF'')"
  proof
    assume "create_complaint f w d ip = Some (Inr (c, t), w')"
    from create_complaint_result [OF this] obtain n where
      "t = candidate w n" and "Complaint.tracking_id c = t"
      by auto
    then show "Complaint.tracking_id c = t
        \<and> (\<exists>h. t = ''PC-'' @ h \<and> length h = 8 \<and> set h \<subseteq> set ''0123456789ABCDEF'')"
      using format_tracking_id_shape [of "rand w (rand_pos w + n)"]
      unfolding candidate_def by blast
  qed
  moreover have "\<exists>h. fst (generate_tracking_id w) = ''PC-'' @ h \<and> length h = 8
        \<and> set h \<subseteq> set ''0123456789ABCDEF''"
    using format_tracking_id_shape [of "rand w (rand_pos w)"]
    by (simp add: generate_tracking_id_eq candidate_def)
  ultimately show ?thesis
    using format_tracking_id_shape [of u] by blast
qed

theorem tracking_id_pattern_witness:
  "create_complaint no_faults empty_world example_draft None
     = Some (Inr (example_complaint, ''PC-00000000''), example_world)
   \<and> Complaint.tracking_id example_complaint = ''PC-00000000''
   \<and> (\<exists>h. ''PC-00000000'' = ''PC-'' @ h \<and> length h = 8 \<and> set h \<subseteq> set ''0123456789ABCDEF'')"
  using tracking_id_pattern [of 0 empty_world no_faults example_draft None
          example_complaint "''PC-00000000''" example_world]
        example_create_first
  by blast

text \<open>
  C3, as the code has it. \<open>create_complaint\<close> returns whenever the store answers and the
  random source offers a code that is not stored. The complaint it returns is the row it
  appended to the table: its status is \<open>PENDING\<close>, it carries the returned tracking code,
  the client address and the fields of the draft, \<open>created_at\<close> is the reading of the
  clock taken when the row is built and \<open>updated_at\<close> is the next reading of the
  clock, taken right after; the call reads the clock just these two times.
\<close>

theorem create_complaint_pending:
  "(db_read_error f = None \<and> db_write_error f = None
      \<and> select_by_tracking_id w (candidate w k) = None \<longrightarrow>
      (\<exists>c t w'. create_complaint f w d ip = Some (Inr (c, t), w')))
   \<and> (create_complaint f w d ip = Some (Inr (c, t), w') \<longrightarrow>
        complaints w' = complaints w @ [c]
        \<and> Complaint.tracking_id c = t
        \<and> Complaint.status c = PENDING
        \<and> Complaint.created_at c = clock w (ticks w)
        \<and> Complaint.updated_at c = clock w (ticks w + 1)
        \<and> ticks w' = ticks w + 2
        \<and> Complaint.title c = ComplaintCreate.title d
        \<and> Complaint.description c = ComplaintCreate.description d
        \<and> Complaint.category c = ComplaintCreate.category d
        \<and> Complaint.urgency c = ComplaintCreate.urgency d
        \<and> Complaint.submitted_ip c = ip)"
proof -
  have "create_complaint f w d ip = Some (Inr (c, t), w') \<longrightarrow>
        complaints w' = complaints w @ [c]
        \<and> Complaint.tracking_id c = t
        \<and> Complaint.status c = PENDING
        \<and> Complaint.created_at c = clock w (ticks w)
        \<and> Complaint.updated_at c = clock w (ticks w + 1)
        \<and> ticks w' = ticks w + 2
        \<and> Complaint.title c = ComplaintCreate.title d
        \<and> Complaint.description c = ComplaintCreate.description d
        \<and> Complaint.category c = ComplaintCreate.category d
        \<and> Complaint.urgency c = ComplaintCreate.urgency d
        \<and> Complaint.submitted_ip c = ip"
  proof
    assume "create_complaint f w d ip = Some (Inr (c, t), w')"
    from create_complaint_result [OF this] show
       "complaints w' = complaints w @ [c]
        \<and> Complaint.tracking_id c = t
        \<and> Complaint.status c = PENDING
        \<and> Complaint.created_at c = clock w (ticks w)
        \<and> Complaint.updated_at c = clock w (ticks w + 1)
        \<and> ticks w' = ticks w + 2
        \<and> Complaint.title c = ComplaintCreate.title d
        \<and> Complaint.description c = ComplaintCreate.description d
        \<and> Complaint.category c = ComplaintCreate.category d
        \<and> Complaint.urgency c = ComplaintCreate.urgency d
        \<and> Complaint.submitted_ip c = ip"
      by auto
  qed
  then show ?thesis
    using create_complaint_total [of f w k d ip] by blast
qed

theorem create_complaint_pending_witness:
  "create_complaint no_faults empty_world example_draft None
     = Some (Inr (example_complaint, ''PC-00000000''), example_world)
   \<and> complaints example_world = complaints empty_world @ [example_complaint]
   \<and> Complaint.status example_complaint = PENDING
   \<and> Complaint.created_at example_complaint = clock empty_world (ticks empty_world)
   \<and> Complaint.updated_at example_complaint = clock empty_world (ticks empty_world + 1)"
proof -
  have "select_by_tracking_id empty_world (candidate empty_world 0) = None"
    by (simp add: select_by_tracking_id_def empty_world_def)
  then show ?thesis
    using create_complaint_pending [of no_faults empty_world 0 example_draft None
            example_complaint "''PC-00000000''" example_world]
          example_create_first
    by (simp add: no_faults_def)
qed

text \<open>
  C3, as stated, asks for one submission time in both timestamps. On a clock that moves
  between the two readings the stored complaint has \<open>created_at = 100\<close> and
  \<open>updated_at = 101\<close>.
\<close>

theorem create_complaint_timestamps_differ:
  "create_complaint no_faults empty_world example_draft None
     = Some (Inr (example_complaint, ''PC-00000000''), example_world)
   \<and> Complaint.created_at example_complaint = 100
   \<and> Complaint.updated_at example_complaint = 101
   \<and> Complaint.created_at example_complaint \<noteq> Complaint.updated_at example_complaint"
  using example_create_first by (simp add: example_complaint_def)

text \<open>
  C5. The code that \<open>create_complaint\<close> assigns is held by no complaint stored before, so
  a table whose codes are pairwise distinct stays so, and two complaints created one
  after the other have different codes. The loop that looks for such a code ends as
  soon as the random source offers one.
\<close>

theorem create_complaint_unique_tracking_id:
  "(create_complaint f w d ip = Some (Inr (c, t), w') \<longrightarrow>
      t \<notin> Complaint.tracking_id ` set (complaints w)
      \<and> Complaint.tracking_id c = t
      \<and> complaints w' = complaints w @ [c]
      \<and> (distinct (map Complaint.tracking_id (complaints w)) \<longrightarrow>
           distinct (map Complaint.tracking_id (complaints w'))))
   \<and> (create_complaint f w d ip = Some (Inr (c, t), w')
      \<and> create_complaint f2 w' d2 ip2 = Some (Inr (c2, t2), w2) \<longrightarrow>
        t \<noteq> t2 \<and> Complaint.tracking_id c \<noteq> Complaint.tracking_id c2)
   \<and> (db_read_error f = None \<and> db_write_error f = None
      \<and> candidate w k \<notin> Complaint.tracking_id ` set (complaints w) \<longrightarrow>
        (\<exists>c t w'. create_complaint f w d ip = Some (Inr (c, t), w')))"
proof -
  have one: "t \<notin> Complaint.tracking_id ` set (complaints w)
      \<and> Complaint.tracking_id c = t
      \<and> complaints w' = complaints w @ [c]"
    if "create_complaint f w d ip = Some (Inr (c, t), w')" for f w d ip c t w'
    using create_complaint_result [OF that] by (auto simp: select_None_iff)
  have two: "t \<noteq> t2 \<and> Complaint.tracking_id c \<noteq> Complaint.tracking_id c2"
    if a: "create_complaint f w d ip = Some (Inr (c, t), w')"
      and b: "create_complaint f2 w' d2 ip2 = Some (Inr (c2, t2), w2)"
  proof -
    from one [OF a] have "t \<in> Complaint.tracking_id ` set (complaints w')"
      by (metis image_eqI in_set_conv_decomp)
    with one [OF b] one [OF a] show ?thesis by auto
  qed
  have three: "\<exists>c t w'. create_complaint f w d ip = Some (Inr (c, t), w')"
    if "db_read_error f = None" "db_write_error f = None"
       "candidate w k \<notin> Complaint.tracking_id ` set (complaints w)"
    using that create_complaint_total [of f w k d ip] by (simp add: select_None_iff)
  from one two three show ?thesis
    by (auto simp del: set_append)
qed

theorem create_complaint_unique_tracking_id_witness:
  "create_complaint no_faults empty_world example_draft None
     = Some (Inr (example_complaint, ''PC-00000000''), example_world)
   \<and> create_complaint no_faults example_world example_draft None
     = Some (Inr (second_complaint, ''PC-00000001''),
             example_world\<lparr>complaints := [example_complaint, second_complaint],
               rand_pos := 3, ticks := 4\<rparr>)
   \<and> candidate example_world 0 = ''PC-00000000''
   \<and> Complaint.tracking_id example_complaint \<noteq> Complaint.tracking_id second_complaint
   \<and> distinct (map Complaint.tracking_id [example_complaint, second_complaint])"
  using create_complaint_unique_tracking_id [of no_faults empty_world example_draft None
          example_complaint "''PC-00000000''" example_world no_faults example_draft None
          second_complaint "''PC-00000001''"
          "example_world\<lparr>complaints := [example_complaint, second_complaint],
               rand_pos := 3, ticks := 4\<rparr>" 0]
        create_complaint_unique_tracking_id [of no_faults example_world example_draft None
          second_complaint "''PC-00000001''"
          "example_world\<lparr>complaints := [example_complaint, second_complaint],
               rand_pos := 3, ticks := 4\<rparr>"]
        example_create_first example_create_second
  by (simp add: candidate_def example_candidates example_world_def example_complaint_def)

section \<open>Reading complaints\<close>

lemma find_map_public_view:
  "map_option public_view (find (\<lambda>c. Complaint.tracking_id c = t) cs)
     = find (\<lambda>p. ComplaintPublic.tracking_id p = t) (map public_view cs)"
  by (induction cs) (simp_all add: public_view_def)

lemma get_complaint_by_tracking_id_eq:
  "get_complaint_by_tracking_id w t
     = find (\<lambda>p. ComplaintPublic.tracking_id p = t) (map public_view (complaints w))"
  unfolding find_map_public_view [symmetric]
  by (simp add: get_complaint_by_tracking_id_def select_by_tracking_id_def split: option.splits)

text \<open>
  C6. \<open>get_complaint_by_tracking_id\<close> returns nothing exactly when no stored complaint
  has the queried code. What it returns otherwise has the queried code and is made of
  the title, category, status and the two timestamps of a stored complaint with that
  code, and of nothing else: two stores whose complaints agree in these six fields give
  the same answer, whatever their descriptions, contact data, officer data and client
  addresses are.
\<close>

theorem get_complaint_by_tracking_id_public:
  "(get_complaint_by_tracking_id w t = None)
      = (t \<notin> Complaint.tracking_id ` set (complaints w))
   \<and> (get_complaint_by_tracking_id w t = Some p \<longrightarrow>
        ComplaintPublic.tracking_id p = t
        \<and> (\<exists>c\<in>set (complaints w). Complaint.tracking_id c = t
             \<and> p = \<lparr>ComplaintPublic.tracking_id = t,
                     ComplaintPublic.title = Complaint.title c,
                     ComplaintPublic.category = Complaint.category c,
                     ComplaintPublic.status = Complaint.status c,
                     ComplaintPublic.created_at = Complaint.created_at c,
                     ComplaintPublic.updated_at = Complaint.updated_at c\<rparr>))
   \<and> (map public_view (complaints w) = map public_view (complaints w2) \<longrightarrow>
        get_complaint_by_tracking_id w t = get_complaint_by_tracking_id w2 t)"
proof -
  have "(get_complaint_by_tracking_id w t = None)
      = (t \<notin> Complaint.tracking_id ` set (complaints w))"
  proof (cases "select_by_tracking_id w t")
    case None
    then show ?thesis
      using select_None_iff [of w t] by (simp add: get_complaint_by_tracking_id_def)
  next
    case (Some c)
    then show ?thesis
      using select_None_iff [of w t] by (simp add: get_complaint_by_tracking_id_def)
  qed
  moreover have "get_complaint_by_tracking_id w t = Some p \<longrightarrow>
        ComplaintPublic.tracking_id p = t
        \<and> (\<exists>c\<in>set (complaints w). Complaint.tracking_id c = t
             \<and> p = \<lparr>ComplaintPublic.tracking_id = t,
                     ComplaintPublic.title = Complaint.title c,
                     ComplaintPublic.category = Complaint.category c,
                     ComplaintPublic.status = Complaint.status c,
                     ComplaintPublic.created_at = Complaint.created_at c,
                     ComplaintPublic.updated_at = Complaint.updated_at c\<rparr>)"
    by (auto simp: get_complaint_by_tracking_id_def select_by_tracking_id_def public_view_def
             find_Some_iff split: option.splits)
  moreover have "map public_view (complaints w) = map public_view (complaints w2) \<longrightarrow>
        get_complaint_by_tracking_id w t = get_complaint_by_tracking_id w2 t"
    by (simp add: get_complaint_by_tracking_id_eq)
  ultimately show ?thesis by blast
qed

theorem get_complaint_by_tracking_id_public_witness:
  "get_complaint_by_tracking_id example_world ''PC-NOTFOUND'' = None
   \<and> get_complaint_by_tracking_id example_world ''pc-00000000'' = None
   \<and> get_complaint_by_tracking_id example_world ''PC-00000000''
       = Some \<lparr>ComplaintPublic.tracking_id = ''PC-00000000'',
               ComplaintPublic.title = ''Short'',
               ComplaintPublic.category = OTHER,
               ComplaintPublic.status = PENDING,
               ComplaintPublic.created_at = 100,
               ComplaintPublic.updated_at = 101\<rparr>
   \<and> get_complaint_by_tracking_id example_world_other_private ''PC-00000000''
       = get_complaint_by_tracking_id example_world ''PC-00000000''"
proof -
  have a: "get_complaint_by_tracking_id example_world ''PC-00000000''
       = Some \<lparr>ComplaintPublic.tracking_id = ''PC-00000000'',
               ComplaintPublic.title = ''Short'',
               ComplaintPublic.category = OTHER,
               ComplaintPublic.status = PENDING,
               ComplaintPublic.created_at = 100,
               ComplaintPublic.updated_at = 101\<rparr>"
    by (simp add: get_complaint_by_tracking_id_def select_by_tracking_id_def public_view_def
          example_world_def example_complaint_def)
  have b: "map public_view (complaints example_world_other_private)
             = map public_view (complaints example_world)"
    by (simp add: example_world_other_private_def example_world_def public_view_def)
  show ?thesis
    using a b
      get_complaint_by_tracking_id_public [of example_world "''PC-NOTFOUND''" _ example_world]
      get_complaint_by_tracking_id_public [of example_world "''pc-00000000''" _ example_world]
      get_complaint_by_tracking_id_public [of example_world "''PC-00000000''"
        "\<lparr>ComplaintPublic.tracking_id = ''PC-00000000'',
               ComplaintPublic.title = ''Short'',
               ComplaintPublic.category = OTHER,
               ComplaintPublic.status = PENDING,
               ComplaintPublic.created_at = 100,
               ComplaintPublic.updated_at = 101\<rparr>" example_world]
      get_complaint_by_tracking_id_public [of example_world_other_private "''PC-00000000''" _
        example_world]
    by (simp add: example_world_def example_complaint_def)
qed

section \<open>Statistics\<close>

lemma categories_entry:
  "categories (get_complaint_statistics w) (category_value cat)
     = Some (length (filter (\<lambda>c. Complaint.category c = cat) (complaints w)))"
  by (cases cat) (simp_all add: get_complaint_statistics_def ComplaintCategory_members_def)

lemma categories_dom:
  "dom (categories (get_complaint_statistics w)) = range category_value"
proof -
  have "(UNIV :: ComplaintCategory set) = set ComplaintCategory_members"
  proof -
    have "cat \<in> set ComplaintCategory_members" for cat
      by (cases cat) (simp_all add: ComplaintCategory_members_def)
    then show ?thesis by blast
  qed
  then have "range category_value = category_value ` set ComplaintCategory_members"
    by simp
  also have "\<dots> = dom (categories (get_complaint_statistics w))"
    by (auto simp: get_complaint_statistics_def ComplaintCategory_members_def)
  finally show ?thesis by simp
qed

text \<open>Three creations in a row from the empty world, the third after two collisions.\<close>

lemma example_candidates_more:
  "format_tracking_id (example_rand 3) = ''PC-00000001''"
  "format_tracking_id (example_rand 4) = ''PC-00000002''"
  by (simp_all add: format_tracking_id_def take_8_uuid_hex hex_digit_def upper_def
        upper_char_def example_rand_def)

lemma world_fields:
  "complaints world_1 = [misconduct_1]" "rand world_1 = example_rand"
  "rand_pos world_1 = Suc 0" "clock world_1 k = 100 + int k" "ticks world_1 = 2"
  "complaints world_2 = [misconduct_1, misconduct_2]" "rand world_2 = example_rand"
  "rand_pos world_2 = 3" "clock world_2 k = 100 + int k" "ticks world_2 = 4"
  by (simp_all add: world_1_def world_2_def empty_world_def)

lemma create_misconduct_1:
  "create_complaint no_faults empty_world misconduct_draft None
     = Some (Inr (misconduct_1, ''PC-00000000''), world_1)"
proof -
  have "ensure_unique (empty_world\<lparr>rand_pos := Suc 0\<rparr>) ''PC-00000000''
          = Some (''PC-00000000'', empty_world\<lparr>rand_pos := Suc 0\<rparr>)"
    by (subst ensure_unique.simps) (simp add: select_by_tracking_id_def empty_world_def)
  then show ?thesis
    apply (simp add: create_complaint_def generate_tracking_id_eq candidate_def no_faults_def
        utcnow_def Let_def example_candidates empty_world_fields)
    apply (simp add: empty_world_def world_1_def misconduct_1_def example_complaint_def
        misconduct_draft_def example_draft_def next_id_def)
    done
qed

lemma create_misconduct_2:
  "create_complaint no_faults world_1 misconduct_draft None
     = Some (Inr (misconduct_2, ''PC-00000001''), world_2)"
proof -
  have stored: "select_by_tracking_id (world_1\<lparr>rand_pos := 2\<rparr>) ''PC-00000000'' \<noteq> None"
    by (simp add: select_by_tracking_id_def world_1_def misconduct_1_def example_complaint_def)
  have fresh: "select_by_tracking_id (world_1\<lparr>rand_pos := 3\<rparr>) ''PC-00000001'' = None"
    by (simp add: select_by_tracking_id_def world_1_def misconduct_1_def example_complaint_def)
  have gen: "generate_tracking_id (world_1\<lparr>rand_pos := 2\<rparr>)
               = (''PC-00000001'', world_1\<lparr>rand_pos := 3\<rparr>)"
    by (simp add: generate_tracking_id_eq candidate_def example_candidates world_fields)
  have "ensure_unique (world_1\<lparr>rand_pos := 3\<rparr>) ''PC-00000001''
          = Some (''PC-00000001'', world_1\<lparr>rand_pos := 3\<rparr>)"
    by (subst ensure_unique.simps) (simp add: fresh)
  then have "ensure_unique (world_1\<lparr>rand_pos := 2\<rparr>) ''PC-00000000''
          = Some (''PC-00000001'', world_1\<lparr>rand_pos := 3\<rparr>)"
    by (subst ensure_unique.simps) (simp add: stored gen)
  then show ?thesis
    apply (simp add: create_complaint_def generate_tracking_id_eq candidate_def no_faults_def
        utcnow_def Let_def example_candidates world_fields numeral_2_eq_2 [symmetric])
    apply (simp add: empty_world_def world_1_def world_2_def misconduct_1_def misconduct_2_def
        example_complaint_def second_complaint_def misconduct_draft_def example_draft_def
        next_id_def)
    done
qed

lemma create_harassment_3:
  "create_complaint no_faults world_2 harassment_draft None
     = Some (Inr (harassment_3, ''PC-00000002''), world_3)"
proof -
  have stored: "select_by_tracking_id (world_2\<lparr>rand_pos := 4\<rparr>) ''PC-00000001'' \<noteq> None"
    by (simp add: select_by_tracking_id_def world_2_def misconduct_1_def misconduct_2_def
          example_complaint_def second_complaint_def)
  have fresh: "select_by_tracking_id (world_2\<lparr>rand_pos := 5\<rparr>) ''PC-00000002'' = None"
    by (simp add: select_by_tracking_id_def world_2_def misconduct_1_def misconduct_2_def
          example_complaint_def second_complaint_def)
  have gen: "generate_tracking_id (world_2\<lparr>rand_pos := 4\<rparr>)
               = (''PC-00000002'', world_2\<lparr>rand_pos := 5\<rparr>)"
    by (simp add: generate_tracking_id_eq candidate_def example_candidates_more world_fields)
  have "ensure_unique (world_2\<lparr>rand_pos := 5\<rparr>) ''PC-00000002''
          = Some (''PC-00000002'', world_2\<lparr>rand_pos := 5\<rparr>)"
    by (subst ensure_unique.simps) (simp add: fresh)
  then have "ensure_unique (world_2\<lparr>rand_pos := 4\<rparr>) ''PC-00000001''
          = Some (''PC-00000002'', world_2\<lparr>rand_pos := 5\<rparr>)"
    by (subst ensure_unique.simps) (simp add: stored gen)
  then show ?thesis
    apply (simp add: create_complaint_def generate_tracking_id_eq candidate_def no_faults_def
        utcnow_def Let_def example_candidates_more world_fields)
    apply (simp add: empty_world_def world_2_def world_3_def misconduct_1_def misconduct_2_def
        harassment_3_def example_complaint_def second_complaint_def harassment_draft_def
        example_draft_def next_id_def)
    done
qed

text \<open>
  C8. The statistics are the number of stored complaints, the number of those with
  status \<open>PENDING\<close>, the number of those with status \<open>RESOLVED\<close>, and a dictionary
  whose keys are exactly the values of the seven categories, each with the number of
  stored complaints of that category, zero included. After two creations of a
  misconduct complaint and one of a harassment complaint in an empty store the total is
  3, all three are pending, and the dictionary has 2 for misconduct, 1 for harassment
  and 0 for other.
\<close>

theorem statistics_counts:
  "total_complaints (get_complaint_statistics w) = length (complaints w)
   \<and> pending_complaints (get_complaint_statistics w)
       = length (filter (\<lambda>c. Complaint.status c = PENDING) (complaints w))
   \<and> resolved_complaints (get_complaint_statistics w)
       = length (filter (\<lambda>c. Complaint.status c = RESOLVED) (complaints w))
   \<and> categories (get_complaint_statistics w) (category_value cat)
       = Some (length (filter (\<lambda>c. Complaint.category c = cat) (complaints w)))
   \<and> dom (categories (get_complaint_statistics w)) = range category_value
   \<and> (complaints w0 = []
       \<and> create_complaint f1 w0 d1 ip1 = Some (Inr (c1, t1), w1)
       \<and> create_complaint f2 w1 d2 ip2 = Some (Inr (c2, t2), w2)
       \<and> create_complaint f3 w2 d3 ip3 = Some (Inr (c3, t3), w3)
       \<and> ComplaintCreate.category d1 = MISCONDUCT
       \<and> ComplaintCreate.category d2 = MISCONDUCT
       \<and> ComplaintCreate.category d3 = HARASSMENT \<longrightarrow>
         total_complaints (get_complaint_statistics w3) = 3
         \<and> pending_complaints (get_complaint_statistics w3) = 3
         \<and> resolved_complaints (get_complaint_statistics w3) = 0
         \<and> categories (get_complaint_statistics w3) ''misconduct'' = Some 2
         \<and> categories (get_complaint_statistics w3) ''harassment'' = Some 1
         \<and> categories (get_complaint_statistics w3) ''other'' = Some 0)"
proof -
  have counts: "total_complaints (get_complaint_statistics w) = length (complaints w)
   \<and> pending_complaints (get_complaint_statistics w)
       = length (filter (\<lambda>c. Complaint.status c = PENDING) (complaints w))
   \<and> resolved_complaints (get_complaint_statistics w)
       = length (filter (\<lambda>c. Complaint.status c = RESOLVED) (complaints w))" for w
    by (simp add: get_complaint_statistics_def)
  have scenario: "total_complaints (get_complaint_statistics w3) = 3
         \<and> pending_complaints (get_complaint_statistics w3) = 3
         \<and> resolved_complaints (get_complaint_statistics w3) = 0
         \<and> categories (get_complaint_statistics w3) ''misconduct'' = Some 2
         \<and> categories (get_complaint_statistics w3) ''harassment'' = Some 1
         \<and> categories (get_complaint_statistics w3) ''other'' = Some 0"
    if e: "complaints w0 = []"
      and a: "create_complaint f1 w0 d1 ip1 = Some (Inr (c1, t1), w1)"
      and b: "create_complaint f2 w1 d2 ip2 = Some (Inr (c2, t2), w2)"
      and c: "create_complaint f3 w2 d3 ip3 = Some (Inr (c3, t3), w3)"
      and d: "ComplaintCreate.category d1 = MISCONDUCT"
             "ComplaintCreate.category d2 = MISCONDUCT"
             "ComplaintCreate.category d3 = HARASSMENT"
  proof -
    from create_complaint_result [OF a] e d have 1:
      "complaints w1 = [c1]" "Complaint.category c1 = MISCONDUCT" "Complaint.status c1 = PENDING"
      by auto
    from create_complaint_result [OF b] 1 d have 2:
      "complaints w2 = [c1, c2]" "Complaint.category c2 = MISCONDUCT"
      "Complaint.status c2 = PENDING"
      by auto
    from create_complaint_result [OF c] 2 d have 3:
      "complaints w3 = [c1, c2, c3]" "Complaint.category c3 = HARASSMENT"
      "Complaint.status c3 = PENDING"
      by auto
    have "categories (get_complaint_statistics w3) (category_value MISCONDUCT) = Some 2"
      "categories (get_complaint_statistics w3) (category_value HARASSMENT) = Some 1"
      "categories (get_complaint_statistics w3) (category_value OTHER) = Some 0"
      unfolding categories_entry using 1 2 3 by simp_all
    then show ?thesis
      using counts [of w3] 1 2 3 by simp
  qed
  from counts [of w] categories_entry [of w cat] categories_dom [of w] scenario
  show ?thesis by blast
qed

theorem statistics_counts_witness:
  "complaints empty_world = []
   \<and> create_complaint no_faults empty_world misconduct_draft None
       = Some (Inr (misconduct_1, ''PC-00000000''), world_1)
   \<and> create_complaint no_faults world_1 misconduct_draft None
       = Some (Inr (misconduct_2, ''PC-00000001''), world_2)
   \<and> create_complaint no_faults world_2 harassment_draft None
       = Some (Inr (harassment_3, ''PC-00000002''), world_3)
   \<and> total_complaints (get_complaint_statistics world_3) = 3
   \<and> pending_complaints (get_complaint_statistics world_3) = 3
   \<and> resolved_complaints (get_complaint_statistics world_3) = 0
   \<and> categories (get_complaint_statistics world_3) ''misconduct'' = Some 2
   \<and> categories (get_complaint_statistics world_3) ''harassment'' = Some 1
   \<and> categories (get_complaint_statistics world_3) ''other'' = Some 0
   \<and> categories (get_complaint_statistics world_3) ''corruption'' = Some 0"
proof -
  have d: "ComplaintCreate.category misconduct_draft = MISCONDUCT"
          "ComplaintCreate.category harassment_draft = HARASSMENT"
    by (simp_all add: misconduct_draft_def harassment_draft_def)
  have "categories (get_complaint_statistics world_3) ''corruption'' = Some 0"
    using statistics_counts [of world_3 CORRUPTION]
    by (simp add: world_3_def misconduct_1_def misconduct_2_def harassment_3_def
          example_complaint_def second_complaint_def)
  then show ?thesis
    using statistics_counts [of world_3 OTHER empty_world no_faults misconduct_draft None
            misconduct_1 "''PC-00000000''" world_1 no_faults misconduct_draft None
            misconduct_2 "''PC-00000001''" world_2 no_faults harassment_draft None
            harassment_3 "''PC-00000002''" world_3]
          create_misconduct_1 create_misconduct_2 create_harassment_3 d
          empty_world_fields(1)
    by blast
qed

section \<open>Searching\<close>

text \<open>
  A pattern without \<^verbatim>\<open>%\<close> and \<^verbatim>\<open>_\<close> between two \<^verbatim>\<open>%\<close> matches exactly the texts
  that contain it.
\<close>

lemma sql_like_percent: "sql_like ''%'' s"
  by (induction s) simp_all

lemma sql_like_prefix:
  "CHR ''%'' \<notin> set q \<Longrightarrow> CHR ''_'' \<notin> set q \<Longrightarrow> sql_like (q @ ''%'') s = startswith s q"
proof (induction q arbitrary: s)
  case Nil
  then show ?case by (simp add: sql_like_percent startswith_def)
next
  case (Cons p ps)
  then show ?case by (cases s) (auto simp: startswith_def)
qed

lemma sql_like_contains:
  assumes "CHR ''%'' \<notin> set q" and "CHR ''_'' \<notin> set q"
  shows "sql_like (CHR ''%'' # q @ ''%'') s = contains s q"
proof (induction s)
  case Nil
  show ?case
    using sql_like_prefix [OF assms, of "[]"] by (auto simp: startswith_def)
next
  case (Cons c cs)
  then show ?case
    using sql_like_prefix [OF assms, of "c # cs"] by simp
qed

lemma contains_sublist: "contains s q = sublist q s"
  by (induction s) (auto simp: startswith_prefix sublist_Cons_right)

lemma upper_char_wildcard:
  "(upper_char c = CHR ''%'') = (c = CHR ''%'')" "(upper_char c = CHR ''_'') = (c = CHR ''_'')"
  "(CHR ''%'' = upper_char c) = (CHR ''%'' = c)" "(CHR ''_'' = upper_char c) = (CHR ''_'' = c)"
  by (auto simp: upper_char_def split: if_splits)

lemma upper_wildcard:
  "(CHR ''%'' \<in> set (upper t)) = (CHR ''%'' \<in> set t)"
  "(CHR ''_'' \<in> set (upper t)) = (CHR ''_'' \<in> set t)"
  by (induction t) (simp_all add: upper_def upper_char_wildcard)

lemma search_complaints_eq:
  "search_complaints w cat st tid =
     map public_view (take 50 (order_by_desc_created_at
       (filter (search_filter cat st tid) (complaints w))))"
  by (auto simp: search_complaints_def search_filter_def Let_def
           split: option.splits intro!: arg_cong [where f = "\<lambda>xs. map public_view (take 50 (order_by_desc_created_at xs))"] filter_cong)


lemma search_complaints_length: "length (search_complaints w cat st tid) \<le> 50"
  by (simp add: search_complaints_eq)

lemma search_complaints_newest_first:
  "sorted_wrt (\<lambda>a b. ComplaintPublic.created_at a \<ge> ComplaintPublic.created_at b)
     (search_complaints w cat st tid)"
proof -
  let ?rows = "order_by_desc_created_at (filter (search_filter cat st tid) (complaints w))"
  have "sorted (map (\<lambda>c. - Complaint.created_at c) ?rows)"
    by (simp add: order_by_desc_created_at_def)
  then have "sorted_wrt (\<lambda>a b. Complaint.created_at a \<ge> Complaint.created_at b) ?rows"
    by (simp add: sorted_wrt_map)
  then have "sorted_wrt (\<lambda>a b. Complaint.created_at a \<ge> Complaint.created_at b) (take 50 ?rows)"
    by (rule sorted_wrt_take)
  then show ?thesis
    by (simp add: search_complaints_eq sorted_wrt_map public_view_def)
qed

lemma search_complaints_sound:
  assumes "p \<in> set (search_complaints w cat st tid)"
  shows "\<exists>r\<in>set (complaints w). p = public_view r \<and> search_filter cat st tid r"
proof -
  from assms obtain r where
    "r \<in> set (take 50 (order_by_desc_created_at
        (filter (search_filter cat st tid) (complaints w))))" and "p = public_view r"
    by (auto simp: search_complaints_eq)
  then show ?thesis
    by (auto dest!: in_set_takeD simp: order_by_desc_created_at_def)
qed

text \<open>
  When the text has neither \<^verbatim>\<open>%\<close> nor \<^verbatim>\<open>_\<close>, the tracking-code clause holds exactly
  for the rows whose code contains the text, letter case aside.
\<close>

lemma search_filter_without_wildcards:
  assumes "t \<noteq> []" and "CHR ''%'' \<notin> set t" and "CHR ''_'' \<notin> set t"
  shows "search_filter cat st (Some t) r =
     ((case cat of None \<Rightarrow> True | Some c \<Rightarrow> Complaint.category r = c)
      \<and> (case st of None \<Rightarrow> True | Some s \<Rightarrow> Complaint.status r = s)
      \<and> sublist (upper t) (upper (Complaint.tracking_id r)))"
  using assms
  by (simp add: search_filter_def sql_like_contains upper_wildcard contains_sublist)

text \<open>
  C7 fails on a text with a wildcard. The store holds one complaint, with the code
  \<^verbatim>\<open>PC-00000000\<close>. The search for \<^verbatim>\<open>P_-\<close> returns it, because \<^verbatim>\<open>_\<close> stands for
  any one character in \<^verbatim>\<open>LIKE\<close>, although the code does not contain \<^verbatim>\<open>P_-\<close>.
\<close>

theorem search_complaints_wildcard:
  "search_complaints example_world None None (Some ''P_-'') = [public_view example_complaint]
   \<and> Complaint.tracking_id example_complaint = ''PC-00000000''
   \<and> \<not> contains (upper ''PC-00000000'') (upper ''P_-'')
   \<and> \<not> sublist (upper ''P_-'') (upper ''PC-00000000'')"
proof -
  have u: "upper ''P_-'' = ''P_-''" "upper ''PC-00000000'' = ''PC-00000000''"
    by (simp_all add: upper_def upper_char_def)
  have c: "\<not> contains ''PC-00000000'' ''P_-''"
    by (simp add: startswith_def)
  have "search_complaints example_world None None (Some ''P_-'') = [public_view example_complaint]"
    by (simp add: search_complaints_def Let_def u order_by_desc_created_at_def
          example_world_fields example_complaint_def)
  then show ?thesis
    using c by (simp add: u contains_sublist [symmetric] example_complaint_def)
qed

end
